theory Spec2Isabelle
  imports Complex_Main
begin

section \<open>Data model\<close>

text \<open>
  The dispatch engine of EnerJee works on pandas data frames of hourly rows and on
  Python floats. Floats are modelled as \<^typ>\<open>real\<close> (no rounding, no NaN); a data frame
  is the list of its rows. A timestamp is the number of whole hours since midnight of
  some fixed day, so that its \<^verbatim>\<open>.hour\<close> attribute is the remainder modulo 24.
\<close>

type_synonym datetime = int

definition dt_hour :: "datetime \<Rightarrow> int" where
  "dt_hour d = d mod 24"

text \<open>One row of \<^verbatim>\<open>forecast_df\<close>.\<close>

record hour_record =
  datetime :: datetime
  demand :: real
  solar_available :: real
  wind_available :: real
  hydro_available :: real
  price :: real

text \<open>One entry of \<^verbatim>\<open>results['hours']\<close>; the keys \<^verbatim>\<open>datetime\<close>, \<^verbatim>\<open>demand\<close> and
  \<^verbatim>\<open>price\<close> carry the prefix \<open>r_\<close> here.\<close>

record hour_result =
  hour :: nat
  r_datetime :: datetime
  r_demand :: real
  solar_use :: real
  wind_use :: real
  hydro_use :: real
  battery_charge :: real
  battery_discharge :: real
  battery_level :: real
  unmet_demand :: real
  r_price :: real

text \<open>An aggregate is a float; a failed optimisation reports \<^verbatim>\<open>float('inf')\<close>.\<close>

datatype amount = Finite real | Infinity

text \<open>The result dictionary. A key that only some of the producers set is an option.\<close>

record results =
  status :: string
  error :: "string option"
  objective_value :: "real option"
  hours :: "hour_result list"
  days :: "nat option"
  total_cost :: amount
  total_emissions :: amount
  total_unmet :: amount

text \<open>Indexing a data frame without rows by a column name raises \<^verbatim>\<open>KeyError\<close>.\<close>

datatype py_error = KeyError

section \<open>Carbon intensity (carbon\_intensity.py)\<close>

definition base_emissions :: "string \<rightharpoonup> real" where
  "base_emissions = [''solar'' \<mapsto> 45, ''wind'' \<mapsto> 12, ''hydro'' \<mapsto> 24]"

definition get_carbon_intensity :: "int \<Rightarrow> string \<Rightarrow> real" where
  "get_carbon_intensity h source =
     (let time_multiplier =
            (if 0 \<le> h \<and> h < 6 then 0.85
             else if 6 \<le> h \<and> h < 9 then 1.0
             else if 9 \<le> h \<and> h < 17 then 1.15
             else if 17 \<le> h \<and> h < 21 then 1.25
             else 0.95)
      in (case base_emissions source of None \<Rightarrow> 0 | Some b \<Rightarrow> b) * time_multiplier)"

text \<open>The table of fixed factors that each dispatcher declares locally.\<close>

definition emission_factors :: "string \<rightharpoonup> real" where
  "emission_factors = [''solar'' \<mapsto> 45, ''wind'' \<mapsto> 12, ''hydro'' \<mapsto> 24, ''battery'' \<mapsto> 0]"

text \<open>The three column sums of the realised cost, and the row-wise emission sum, as the
  dispatchers compute them from the data frame of hourly results.\<close>

definition cost_columns :: "hour_result list \<Rightarrow> real" where
  "cost_columns hs =
     sum_list (map (\<lambda>h. solar_use h * r_price h * 0.5) hs) +
     sum_list (map (\<lambda>h. wind_use h * r_price h * 0.6) hs) +
     sum_list (map (\<lambda>h. hydro_use h * r_price h * 0.7) hs)"

definition fixed_emissions :: "hour_result list \<Rightarrow> real" where
  "fixed_emissions hs =
     sum_list (map (\<lambda>h. solar_use h * the (emission_factors ''solar'') +
                         wind_use h * the (emission_factors ''wind'') +
                         hydro_use h * the (emission_factors ''hydro'')) hs)"

section \<open>Greedy baseline (greedy\_baseline.py)\<close>

text \<open>The body of the hourly loop: from the battery level carried into hour \<open>t\<close> and the
  row of that hour to the hour's entry and the level carried out of it.\<close>

definition greedy_hour :: "real \<Rightarrow> real \<Rightarrow> nat \<Rightarrow> hour_record \<Rightarrow> hour_result \<times> real" where
  "greedy_hour battery_capacity level t row =
     (let efficiency = 0.9;
          max_rate = battery_capacity * 0.2;
          solar_avail = solar_available row;
          wind_avail = wind_available row;
          hydro_avail = hydro_available row;
          remaining0 = demand row;
          solar_use0 = min solar_avail remaining0;
          remaining1 = remaining0 - solar_use0;
          wind_use0 = (if remaining1 > 0 then min wind_avail remaining1 else 0);
          remaining2 = remaining1 - wind_use0;
          hydro_use0 = (if remaining2 > 0 then min hydro_avail remaining2 else 0);
          remaining3 = remaining2 - hydro_use0;
          discharge = (if remaining3 > 0 then min remaining3 (min max_rate level) else 0);
          level1 = level - discharge;
          remaining4 = remaining3 - discharge;
          unmet = (if remaining4 > 0 then remaining4 else 0);
          excess_solar = solar_avail - solar_use0;
          excess_wind = wind_avail - wind_use0;
          excess_hydro = hydro_avail - hydro_use0;
          total_excess = excess_solar + excess_wind + excess_hydro;
          charge = (if total_excess > 0
                    then min total_excess (min max_rate ((battery_capacity - level1) / efficiency))
                    else 0);
          level2 = level1 + charge * efficiency;
          charge_fraction = (if total_excess > 0 then charge / total_excess else 0)
      in (\<lparr>hour = t, r_datetime = datetime row, r_demand = demand row,
           solar_use = solar_use0 + excess_solar * charge_fraction,
           wind_use = wind_use0 + excess_wind * charge_fraction,
           hydro_use = hydro_use0 + excess_hydro * charge_fraction,
           battery_charge = charge, battery_discharge = discharge,
           battery_level = level2, unmet_demand = unmet, r_price = price row\<rparr>,
          level2))"

fun greedy_loop :: "real \<Rightarrow> real \<Rightarrow> nat \<Rightarrow> hour_record list \<Rightarrow> hour_result list" where
  "greedy_loop battery_capacity level t [] = []"
| "greedy_loop battery_capacity level t (row # rows) =
     (let (h, level') = greedy_hour battery_capacity level t row
      in h # greedy_loop battery_capacity level' (Suc t) rows)"

definition greedy_energy_mix :: "hour_record list \<Rightarrow> real \<Rightarrow> real \<Rightarrow> py_error + results" where
  "greedy_energy_mix forecast_df battery_capacity battery_initial =
     (let hs = greedy_loop battery_capacity battery_initial 0 forecast_df
      in if hs = [] then Inl KeyError
         else Inr \<lparr>status = ''Greedy'', error = None, objective_value = None, hours = hs,
                   days = None,
                   total_cost = Finite (cost_columns hs),
                   total_emissions = Finite (fixed_emissions hs),
                   total_unmet = Finite (sum_list (map unmet_demand hs))\<rparr>)"

section \<open>Linear programs and the solver\<close>

text \<open>
  The optimisers build a linear program with PuLP and hand it to the CBC solver. The
  program is data: decision variables with their bounds, an objective to minimise and a
  list of constraints. A linear expression is the list of its terms (coefficient and
  variable) and a constant. The names PuLP attaches to the problem and to each constraint
  identify them in solver files and play no part in the program; they are left out.
\<close>

datatype var =
    Solar_use nat | Wind_use nat | Hydro_use nat
  | Battery_charge nat | Battery_discharge nat | Battery_level nat
  | Unmet nat

type_synonym lin_expr = "(real \<times> var) list \<times> real"

datatype sense = LE | GE | EQ

record lp_variable =
  name :: var
  lowBound :: "real option"
  upBound :: "real option"

record lp_constraint =
  lhs :: lin_expr
  sense :: sense
  rhs :: lin_expr

record lp_problem =
  variables :: "lp_variable list"
  objective :: lin_expr
  constraints :: "lp_constraint list"

definition scale_terms :: "real \<Rightarrow> (real \<times> var) list \<Rightarrow> (real \<times> var) list" where
  "scale_terms k ts = map (\<lambda>(c, v). (k * c, v)) ts"

text \<open>The value of an expression under an assignment of the variables.\<close>

definition eval_expr :: "(var \<Rightarrow> real) \<Rightarrow> lin_expr \<Rightarrow> real" where
  "eval_expr a e = sum_list (map (\<lambda>(c, v). c * a v) (fst e)) + snd e"

text \<open>An assignment satisfies a constraint, or a bound, within a tolerance \<open>eps\<close>;
  with \<open>eps = 0\<close> it satisfies it exactly.\<close>

definition holds :: "real \<Rightarrow> (var \<Rightarrow> real) \<Rightarrow> lp_constraint \<Rightarrow> bool" where
  "holds eps a c =
     (case sense c of
        LE \<Rightarrow> eval_expr a (lhs c) \<le> eval_expr a (rhs c) + eps
      | GE \<Rightarrow> eval_expr a (rhs c) \<le> eval_expr a (lhs c) + eps
      | EQ \<Rightarrow> \<bar>eval_expr a (lhs c) - eval_expr a (rhs c)\<bar> \<le> eps)"

definition in_bounds :: "real \<Rightarrow> (var \<Rightarrow> real) \<Rightarrow> lp_variable \<Rightarrow> bool" where
  "in_bounds eps a x =
     ((case lowBound x of None \<Rightarrow> True | Some l \<Rightarrow> l \<le> a (name x) + eps) \<and>
      (case upBound x of None \<Rightarrow> True | Some u \<Rightarrow> a (name x) \<le> u + eps))"

definition feasible :: "real \<Rightarrow> (var \<Rightarrow> real) \<Rightarrow> lp_problem \<Rightarrow> bool" where
  "feasible eps a p \<longleftrightarrow>
     list_all (in_bounds eps a) (variables p) \<and> list_all (holds eps a) (constraints p)"

text \<open>The status codes of PuLP and the table \<^verbatim>\<open>pulp.LpStatus\<close> of their names.\<close>

datatype lp_status =
  LpStatusNotSolved | LpStatusOptimal | LpStatusInfeasible | LpStatusUnbounded | LpStatusUndefined

fun LpStatus :: "lp_status \<Rightarrow> string" where
  "LpStatus LpStatusNotSolved = ''Not Solved''"
| "LpStatus LpStatusOptimal = ''Optimal''"
| "LpStatus LpStatusInfeasible = ''Infeasible''"
| "LpStatus LpStatusUnbounded = ''Unbounded''"
| "LpStatus LpStatusUndefined = ''Undefined''"

text \<open>
  The solver is an external collaborator and a parameter of the model: from a problem and
  the solver's own state to a status, the values of the variables and the next state. The
  state makes every invocation visible. A solver that cannot be started is outside the
  model.
\<close>

type_synonym 's solver = "lp_problem \<Rightarrow> 's \<Rightarrow> (lp_status \<times> (var \<Rightarrow> real)) \<times> 's"

section \<open>Single-day optimiser (optimization.py)\<close>

definition energy_mix_problem ::
  "hour_record list \<Rightarrow> real \<Rightarrow> real \<Rightarrow> real \<Rightarrow> real \<Rightarrow> bool \<Rightarrow> lp_problem" where
  "energy_mix_problem forecast_df battery_capacity battery_initial cost_weight emission_weight
       use_time_varying_carbon =
     (let hours = length forecast_df;
          rows = enumerate 0 forecast_df;
          total_cost = concat (map (\<lambda>(t, row).
              [(price row * 0.5, Solar_use t), (price row * 0.6, Wind_use t),
               (price row * 0.7, Hydro_use t)]) rows);
          total_emissions = concat (map (\<lambda>(t, row).
              (let hour_of_day = dt_hour (datetime row);
                   solar_intensity = (if use_time_varying_carbon
                      then get_carbon_intensity hour_of_day ''solar''
                      else the (emission_factors ''solar''));
                   wind_intensity = (if use_time_varying_carbon
                      then get_carbon_intensity hour_of_day ''wind''
                      else the (emission_factors ''wind''));
                   hydro_intensity = (if use_time_varying_carbon
                      then get_carbon_intensity hour_of_day ''hydro''
                      else the (emission_factors ''hydro''))
               in [(solar_intensity, Solar_use t), (wind_intensity, Wind_use t),
                   (hydro_intensity, Hydro_use t)])) rows);
          carbon_price = 0.1;
          efficiency = 0.9;
          max_rate = battery_capacity * 0.2
      in \<lparr>variables =
             map (\<lambda>t. \<lparr>name = Solar_use t, lowBound = Some 0, upBound = None\<rparr>) [0..<hours] @
             map (\<lambda>t. \<lparr>name = Wind_use t, lowBound = Some 0, upBound = None\<rparr>) [0..<hours] @
             map (\<lambda>t. \<lparr>name = Hydro_use t, lowBound = Some 0, upBound = None\<rparr>) [0..<hours] @
             map (\<lambda>t. \<lparr>name = Battery_charge t, lowBound = Some 0, upBound = None\<rparr>) [0..<hours] @
             map (\<lambda>t. \<lparr>name = Battery_discharge t, lowBound = Some 0, upBound = None\<rparr>) [0..<hours] @
             map (\<lambda>t. \<lparr>name = Battery_level t, lowBound = Some 0,
                        upBound = Some battery_capacity\<rparr>) [0..<hours + 1] @
             map (\<lambda>t. \<lparr>name = Unmet t, lowBound = Some 0, upBound = None\<rparr>) [0..<hours],
           objective =
             (scale_terms cost_weight total_cost @
              scale_terms carbon_price (scale_terms emission_weight total_emissions) @
              scale_terms 10000 (map (\<lambda>t. (1, Unmet t)) [0..<hours]), 0),
           constraints =
             \<lparr>lhs = ([(1, Battery_level 0)], 0), sense = EQ, rhs = ([], battery_initial)\<rparr> #
             concat (map (\<lambda>(t, row).
               [\<lparr>lhs = ([(1, Solar_use t), (1, Wind_use t), (1, Hydro_use t),
                          (1, Battery_discharge t), (- 1, Battery_charge t), (1, Unmet t)], 0),
                  sense = EQ, rhs = ([], demand row)\<rparr>,
                \<lparr>lhs = ([(1, Solar_use t)], 0), sense = LE, rhs = ([], solar_available row)\<rparr>,
                \<lparr>lhs = ([(1, Wind_use t)], 0), sense = LE, rhs = ([], wind_available row)\<rparr>,
                \<lparr>lhs = ([(1, Hydro_use t)], 0), sense = LE, rhs = ([], hydro_available row)\<rparr>,
                \<lparr>lhs = ([(1, Battery_level (t + 1))], 0), sense = EQ,
                  rhs = ([(1, Battery_level t), (efficiency, Battery_charge t),
                          (- 1, Battery_discharge t)], 0)\<rparr>,
                \<lparr>lhs = ([(1, Battery_charge t)], 0), sense = LE, rhs = ([], max_rate)\<rparr>,
                \<lparr>lhs = ([(1, Battery_discharge t)], 0), sense = LE, rhs = ([], max_rate)\<rparr>,
                \<lparr>lhs = ([(1, Battery_charge t), (1, Battery_discharge t)], 0), sense = LE,
                  rhs = ([], max_rate)\<rparr>]) rows)\<rparr>)"

text \<open>What the optimiser makes of the solver's answer. A status other than optimal ends the
  call with the failure dictionary; otherwise the hourly entries are read from the solver's
  values and the totals are computed from their data frame, which has no columns when
  there are no rows.\<close>

definition energy_mix_results ::
  "lp_problem \<Rightarrow> hour_record list \<Rightarrow> lp_status \<times> (var \<Rightarrow> real) \<Rightarrow> py_error + results" where
  "energy_mix_results prob forecast_df answer =
     (let prob_status = fst answer; val = snd answer
      in if prob_status \<noteq> LpStatusOptimal
         then Inr \<lparr>status = LpStatus prob_status,
                   error = Some (''Optimization failed with status: '' @ LpStatus prob_status),
                   objective_value = None, hours = [], days = None,
                   total_cost = Infinity, total_emissions = Infinity,
                   total_unmet = Infinity\<rparr>
         else
           (let hs = map (\<lambda>(t, row).
                  \<lparr>hour = t, r_datetime = datetime row, r_demand = demand row,
                   solar_use = val (Solar_use t), wind_use = val (Wind_use t),
                   hydro_use = val (Hydro_use t),
                   battery_charge = val (Battery_charge t),
                   battery_discharge = val (Battery_discharge t),
                   battery_level = val (Battery_level (t + 1)),
                   unmet_demand = val (Unmet t), r_price = price row\<rparr>)
                  (enumerate 0 forecast_df)
            in if hs = [] then Inl KeyError
               else Inr \<lparr>status = LpStatus prob_status, error = None,
                         objective_value = Some (eval_expr val (objective prob)),
                         hours = hs, days = None,
                         total_cost = Finite (cost_columns hs),
                         total_emissions = Finite (fixed_emissions hs),
                         total_unmet = Finite (sum_list (map unmet_demand hs))\<rparr>))"

text \<open>The call itself: build the problem, invoke the solver once, report.\<close>

definition optimize_energy_mix ::
  "'s solver \<Rightarrow> hour_record list \<Rightarrow> real \<Rightarrow> real \<Rightarrow> real \<Rightarrow> real \<Rightarrow> bool \<Rightarrow> 's \<Rightarrow>
   (py_error + results) \<times> 's" where
  "optimize_energy_mix solve forecast_df battery_capacity battery_initial cost_weight
       emission_weight use_time_varying_carbon s =
     (let prob = energy_mix_problem forecast_df battery_capacity battery_initial cost_weight
                   emission_weight use_time_varying_carbon;
          (answer, s') = solve prob s
      in (energy_mix_results prob forecast_df answer, s'))"

section \<open>Multi-day optimiser (multiday\_optimization.py)\<close>

definition multiday_problem ::
  "hour_record list \<Rightarrow> real \<Rightarrow> real \<Rightarrow> real \<Rightarrow> real \<Rightarrow> bool \<Rightarrow> lp_problem" where
  "multiday_problem forecast_df battery_capacity battery_initial cost_weight emission_weight
       use_time_varying_carbon =
     (let hours = length forecast_df;
          rows = enumerate 0 forecast_df;
          total_cost = concat (map (\<lambda>(t, row).
              [(price row * 0.5, Solar_use t), (price row * 0.6, Wind_use t),
               (price row * 0.7, Hydro_use t)]) rows);
          total_emissions = concat (map (\<lambda>(t, row).
              (let hour_of_day = dt_hour (datetime row);
                   solar_intensity = (if use_time_varying_carbon
                      then get_carbon_intensity hour_of_day ''solar''
                      else the (emission_factors ''solar''));
                   wind_intensity = (if use_time_varying_carbon
                      then get_carbon_intensity hour_of_day ''wind''
                      else the (emission_factors ''wind''));
                   hydro_intensity = (if use_time_varying_carbon
                      then get_carbon_intensity hour_of_day ''hydro''
                      else the (emission_factors ''hydro''))
               in [(solar_intensity, Solar_use t), (wind_intensity, Wind_use t),
                   (hydro_intensity, Hydro_use t)])) rows);
          carbon_price = 0.1;
          efficiency = 0.9;
          max_rate = battery_capacity * 0.2
      in \<lparr>variables =
             map (\<lambda>t. \<lparr>name = Solar_use t, lowBound = Some 0, upBound = None\<rparr>) [0..<hours] @
             map (\<lambda>t. \<lparr>name = Wind_use t, lowBound = Some 0, upBound = None\<rparr>) [0..<hours] @
             map (\<lambda>t. \<lparr>name = Hydro_use t, lowBound = Some 0, upBound = None\<rparr>) [0..<hours] @
             map (\<lambda>t. \<lparr>name = Battery_charge t, lowBound = Some 0, upBound = None\<rparr>) [0..<hours] @
             map (\<lambda>t. \<lparr>name = Battery_discharge t, lowBound = Some 0, upBound = None\<rparr>) [0..<hours] @
             map (\<lambda>t. \<lparr>name = Battery_level t, lowBound = Some 0,
                        upBound = Some battery_capacity\<rparr>) [0..<hours + 1] @
             map (\<lambda>t. \<lparr>name = Unmet t, lowBound = Some 0, upBound = None\<rparr>) [0..<hours],
           objective =
             (scale_terms cost_weight total_cost @
              scale_terms carbon_price (scale_terms emission_weight total_emissions) @
              scale_terms 10000 (map (\<lambda>t. (1, Unmet t)) [0..<hours]), 0),
           constraints =
             \<lparr>lhs = ([(1, Battery_level 0)], 0), sense = EQ, rhs = ([], battery_initial)\<rparr> #
             concat (map (\<lambda>(t, row).
               [\<lparr>lhs = ([(1, Solar_use t), (1, Wind_use t), (1, Hydro_use t),
                          (1, Battery_discharge t), (- 1, Battery_charge t), (1, Unmet t)], 0),
                  sense = EQ, rhs = ([], demand row)\<rparr>,
                \<lparr>lhs = ([(1, Solar_use t)], 0), sense = LE, rhs = ([], solar_available row)\<rparr>,
                \<lparr>lhs = ([(1, Wind_use t)], 0), sense = LE, rhs = ([], wind_available row)\<rparr>,
                \<lparr>lhs = ([(1, Hydro_use t)], 0), sense = LE, rhs = ([], hydro_available row)\<rparr>,
                \<lparr>lhs = ([(1, Battery_level (t + 1))], 0), sense = EQ,
                  rhs = ([(1, Battery_level t), (efficiency, Battery_charge t),
                          (- 1, Battery_discharge t)], 0)\<rparr>,
                \<lparr>lhs = ([(1, Battery_charge t)], 0), sense = LE, rhs = ([], max_rate)\<rparr>,
                \<lparr>lhs = ([(1, Battery_discharge t)], 0), sense = LE, rhs = ([], max_rate)\<rparr>,
                \<lparr>lhs = ([(1, Battery_charge t), (1, Battery_discharge t)], 0), sense = LE,
                  rhs = ([], max_rate)\<rparr>]) rows) @
             [\<lparr>lhs = ([(1, Battery_level hours)], 0), sense = GE,
                rhs = ([], battery_capacity * 0.2)\<rparr>,
              \<lparr>lhs = ([(1, Battery_level hours)], 0), sense = LE,
                rhs = ([], battery_capacity * 0.8)\<rparr>]\<rparr>)"

text \<open>The emissions of the hourly entries under the time-varying intensities: the loop over
  the rows of the data frame of results.\<close>

definition time_varying_emissions :: "hour_result list \<Rightarrow> real" where
  "time_varying_emissions hs =
     foldl (\<lambda>emissions row.
        (let hour_of_day = dt_hour (r_datetime row)
         in emissions +
            (solar_use row * get_carbon_intensity hour_of_day ''solar'' +
             wind_use row * get_carbon_intensity hour_of_day ''wind'' +
             hydro_use row * get_carbon_intensity hour_of_day ''hydro''))) 0 hs"

definition multiday_results ::
  "lp_problem \<Rightarrow> hour_record list \<Rightarrow> nat \<Rightarrow> bool \<Rightarrow> lp_status \<times> (var \<Rightarrow> real) \<Rightarrow>
   py_error + results" where
  "multiday_results prob forecast_df days_arg use_time_varying_carbon answer =
     (let prob_status = fst answer; val = snd answer
      in if prob_status \<noteq> LpStatusOptimal
         then Inr \<lparr>status = LpStatus prob_status,
                   error = Some (''Multi-day optimization failed: '' @ LpStatus prob_status),
                   objective_value = None, hours = [], days = None,
                   total_cost = Infinity, total_emissions = Infinity,
                   total_unmet = Infinity\<rparr>
         else
           (let hs = map (\<lambda>(t, row).
                  \<lparr>hour = t, r_datetime = datetime row, r_demand = demand row,
                   solar_use = val (Solar_use t), wind_use = val (Wind_use t),
                   hydro_use = val (Hydro_use t),
                   battery_charge = val (Battery_charge t),
                   battery_discharge = val (Battery_discharge t),
                   battery_level = val (Battery_level (t + 1)),
                   unmet_demand = val (Unmet t), r_price = price row\<rparr>)
                  (enumerate 0 forecast_df)
            in if hs = [] then Inl KeyError
               else Inr \<lparr>status = LpStatus prob_status, error = None,
                         objective_value = Some (eval_expr val (objective prob)),
                         hours = hs, days = Some days_arg,
                         total_cost = Finite (cost_columns hs),
                         total_emissions =
                           (if use_time_varying_carbon then Finite (time_varying_emissions hs)
                            else Finite (fixed_emissions hs)),
                         total_unmet = Finite (sum_list (map unmet_demand hs))\<rparr>))"

definition optimize_multiday_energy_mix ::
  "'s solver \<Rightarrow> hour_record list \<Rightarrow> nat \<Rightarrow> real \<Rightarrow> real \<Rightarrow> real \<Rightarrow> real \<Rightarrow> bool \<Rightarrow> 's \<Rightarrow>
   (py_error + results) \<times> 's" where
  "optimize_multiday_energy_mix solve forecast_df days_arg battery_capacity battery_initial
       cost_weight emission_weight use_time_varying_carbon s =
     (let prob = multiday_problem forecast_df battery_capacity battery_initial cost_weight
                   emission_weight use_time_varying_carbon;
          (answer, s') = solve prob s
      in (multiday_results prob forecast_df days_arg use_time_varying_carbon answer, s'))"

section \<open>Price sensitivity (sensitivity\_analysis.py)\<close>

record scenario =
  multiplier :: real
  label :: string

record summary =
  s_multiplier :: real
  s_total_cost :: amount
  s_total_emissions :: amount
  s_total_unmet :: amount

record sensitivity =
  scenarios :: "scenario list"
  optimized :: "summary list"
  greedy :: "summary list"

text \<open>Python's \<^verbatim>\<open>int\<close> of a float truncates towards zero; \<^verbatim>\<open>str\<close> of an integer is its
  decimal numeral.\<close>

definition py_int :: "real \<Rightarrow> int" where
  "py_int x = (if 0 \<le> x then \<lfloor>x\<rfloor> else \<lceil>x\<rceil>)"

fun str_nat :: "nat \<Rightarrow> string" where
  "str_nat n =
     (if n < 10 then [''0123456789'' ! n]
      else str_nat (n div 10) @ [''0123456789'' ! (n mod 10)])"

definition str_int :: "int \<Rightarrow> string" where
  "str_int i = (if i < 0 then ''-'' @ str_nat (nat (- i)) else str_nat (nat i))"

text \<open>The copy of the forecast with every price scaled.\<close>

definition scenario_df :: "hour_record list \<Rightarrow> real \<Rightarrow> hour_record list" where
  "scenario_df forecast_df m = map (\<lambda>row. row\<lparr>price := price row * m\<rparr>) forecast_df"

definition summary_of :: "real \<Rightarrow> results \<Rightarrow> summary" where
  "summary_of m r =
     \<lparr>s_multiplier = m, s_total_cost = total_cost r, s_total_emissions = total_emissions r,
      s_total_unmet = total_unmet r\<rparr>"

text \<open>The loop over the multipliers. An exception of either dispatcher leaves the loop.\<close>

fun sensitivity_loop ::
  "'s solver \<Rightarrow> hour_record list \<Rightarrow> real \<Rightarrow> real \<Rightarrow> real \<Rightarrow> real \<Rightarrow> bool \<Rightarrow> real list \<Rightarrow>
   sensitivity \<Rightarrow> 's \<Rightarrow> (py_error + sensitivity) \<times> 's" where
  "sensitivity_loop solve forecast_df battery_capacity battery_initial cost_weight
       emission_weight use_time_varying_carbon [] res s = (Inr res, s)"
| "sensitivity_loop solve forecast_df battery_capacity battery_initial cost_weight
       emission_weight use_time_varying_carbon (m # ms) res s =
     (case optimize_energy_mix solve (scenario_df forecast_df m) battery_capacity
             battery_initial cost_weight emission_weight use_time_varying_carbon s of
        (Inl e, s') \<Rightarrow> (Inl e, s')
      | (Inr opt_result, s') \<Rightarrow>
          (case greedy_energy_mix (scenario_df forecast_df m) battery_capacity battery_initial of
             Inl e \<Rightarrow> (Inl e, s')
           | Inr greedy_result \<Rightarrow>
               sensitivity_loop solve forecast_df battery_capacity battery_initial cost_weight
                 emission_weight use_time_varying_carbon ms
                 \<lparr>scenarios = scenarios res @
                    [\<lparr>multiplier = m, label = str_int (py_int (m * 100)) @ ''% Price''\<rparr>],
                  optimized = (if error opt_result = None
                               then optimized res @ [summary_of m opt_result]
                               else optimized res),
                  greedy = greedy res @ [summary_of m greedy_result]\<rparr> s'))"

definition run_price_sensitivity ::
  "'s solver \<Rightarrow> hour_record list \<Rightarrow> real \<Rightarrow> real \<Rightarrow> real \<Rightarrow> real \<Rightarrow> real list option \<Rightarrow> bool \<Rightarrow>
   's \<Rightarrow> (py_error + sensitivity) \<times> 's" where
  "run_price_sensitivity solve forecast_df battery_capacity battery_initial cost_weight
       emission_weight price_scenarios use_time_varying_carbon s =
     sensitivity_loop solve forecast_df battery_capacity battery_initial cost_weight
       emission_weight use_time_varying_carbon
       (case price_scenarios of None \<Rightarrow> [0.5, 0.75, 1.0, 1.25, 1.5] | Some ps \<Rightarrow> ps)
       \<lparr>scenarios = [], optimized = [], greedy = []\<rparr> s"

section \<open>Notions used in the properties\<close>

text \<open>The constraints of the dispatch problem as the specification lists them, for every
  hour of the series, each met within the tolerance \<open>eps\<close>: signs of the decision
  variables, demand balance, availability caps, battery dynamics with the loss on the
  charge leg, the three rate limits, the bounds of the battery level and its start.\<close>

definition dispatch_constraints ::
  "real \<Rightarrow> (var \<Rightarrow> real) \<Rightarrow> hour_record list \<Rightarrow> real \<Rightarrow> real \<Rightarrow> bool" where
  "dispatch_constraints eps a forecast_df battery_capacity battery_initial \<longleftrightarrow>
     (\<forall>t < length forecast_df.
        0 \<le> a (Solar_use t) + eps \<and> 0 \<le> a (Wind_use t) + eps \<and> 0 \<le> a (Hydro_use t) + eps \<and>
        0 \<le> a (Battery_charge t) + eps \<and> 0 \<le> a (Battery_discharge t) + eps \<and>
        0 \<le> a (Unmet t) + eps \<and>
        \<bar>a (Solar_use t) + a (Wind_use t) + a (Hydro_use t) + a (Battery_discharge t)
           - a (Battery_charge t) + a (Unmet t) - demand (forecast_df ! t)\<bar> \<le> eps \<and>
        a (Solar_use t) \<le> solar_available (forecast_df ! t) + eps \<and>
        a (Wind_use t) \<le> wind_available (forecast_df ! t) + eps \<and>
        a (Hydro_use t) \<le> hydro_available (forecast_df ! t) + eps \<and>
        \<bar>a (Battery_level (t + 1))
           - (a (Battery_level t) + 0.9 * a (Battery_charge t) - a (Battery_discharge t))\<bar> \<le> eps \<and>
        a (Battery_charge t) \<le> battery_capacity * 0.2 + eps \<and>
        a (Battery_discharge t) \<le> battery_capacity * 0.2 + eps \<and>
        a (Battery_charge t) + a (Battery_discharge t) \<le> battery_capacity * 0.2 + eps) \<and>
     (\<forall>t < length forecast_df + 1.
        0 \<le> a (Battery_level t) + eps \<and> a (Battery_level t) \<le> battery_capacity + eps) \<and>
     \<bar>a (Battery_level 0) - battery_initial\<bar> \<le> eps"




definition nonneg_supply :: "hour_record \<Rightarrow> bool" where
  "nonneg_supply row \<longleftrightarrow>
     0 \<le> solar_available row \<and> 0 \<le> wind_available row \<and> 0 \<le> hydro_available row"

definition nonneg_row :: "hour_record \<Rightarrow> bool" where
  "nonneg_row row \<longleftrightarrow> 0 \<le> demand row \<and> nonneg_supply row"

text \<open>The series the specification takes as well formed for a requested horizon; the source
  has no check of it.\<close>

definition well_formed :: "nat \<Rightarrow> hour_record list \<Rightarrow> bool" where
  "well_formed horizon forecast_df \<longleftrightarrow>
     length forecast_df = horizon \<and>
     sorted_wrt (<) (map datetime forecast_df) \<and>
     list_all (\<lambda>row. 0 \<le> demand row \<and> 0 \<le> solar_available row \<and> 0 \<le> wind_available row \<and>
                      0 \<le> hydro_available row \<and> 0 \<le> price row) forecast_df"

text \<open>The multi-day problem with its two terminal constraints, the last two it adds,
  removed; and the multi-day optimiser run on that problem.\<close>

definition without_terminal_band :: "lp_problem \<Rightarrow> lp_problem" where
  "without_terminal_band p = p\<lparr>constraints := butlast (butlast (constraints p))\<rparr>"

definition optimize_multiday_without_band ::
  "'s solver \<Rightarrow> hour_record list \<Rightarrow> nat \<Rightarrow> real \<Rightarrow> real \<Rightarrow> real \<Rightarrow> real \<Rightarrow> bool \<Rightarrow> 's \<Rightarrow>
   (py_error + results) \<times> 's" where
  "optimize_multiday_without_band solve forecast_df days_arg battery_capacity battery_initial
       cost_weight emission_weight use_time_varying_carbon s =
     (let prob = without_terminal_band
                   (multiday_problem forecast_df battery_capacity battery_initial cost_weight
                      emission_weight use_time_varying_carbon);
          (answer, s') = solve prob s
      in (multiday_results prob forecast_df days_arg use_time_varying_carbon answer, s'))"

text \<open>The plan that leaves the battery alone and serves nothing.\<close>

definition idle_assignment :: "hour_record list \<Rightarrow> real \<Rightarrow> var \<Rightarrow> real" where
  "idle_assignment forecast_df battery_initial v =
     (case v of
        Unmet t \<Rightarrow> (if t < length forecast_df then demand (forecast_df ! t) else 0)
      | Battery_level t \<Rightarrow> battery_initial
      | _ \<Rightarrow> 0)"

text \<open>The aggregates as the specification states them: the realised cost with the factors
  0.5, 0.6 and 0.7 of the price, and the emissions with the base factors 45, 12 and 24.\<close>

definition realized_cost :: "hour_result list \<Rightarrow> real" where
  "realized_cost hs =
     (\<Sum>h\<leftarrow>hs. (0.5 * solar_use h + 0.6 * wind_use h + 0.7 * hydro_use h) * r_price h)"

definition base_factor_emissions :: "hour_result list \<Rightarrow> real" where
  "base_factor_emissions hs = (\<Sum>h\<leftarrow>hs. 45 * solar_use h + 12 * wind_use h + 24 * hydro_use h)"

text \<open>The statuses a solver reports on a sequence of problems, and its state after them.\<close>

fun solver_run :: "'s solver \<Rightarrow> lp_problem list \<Rightarrow> 's \<Rightarrow> lp_status list \<times> 's" where
  "solver_run solve [] s = ([], s)"
| "solver_run solve (p # ps) s =
     (let (answer, s') = solve p s; (sts, s'') = solver_run solve ps s'
      in (fst answer # sts, s''))"

section \<open>Example inputs\<close>

text \<open>One hour at noon: demand 300 against 300 of solar, a battery of 500 holding 250. The
  solver's answer discharges the battery at its rate limit of 100 and takes 200 of solar.\<close>

definition noon_series :: "hour_record list" where
  "noon_series = [\<lparr>datetime = 12, demand = 300, solar_available = 300, wind_available = 0,
                    hydro_available = 0, price = 50\<rparr>]"

definition noon_answer :: "var \<Rightarrow> real" where
  "noon_answer v =
     (if v = Solar_use 0 then 200 else if v = Battery_discharge 0 then 100
      else if v = Battery_level 0 then 250 else if v = Battery_level 1 then 150 else 0)"

definition noon_solver :: "unit solver" where
  "noon_solver p s = ((LpStatusOptimal, noon_answer), s)"

text \<open>Two rows with a negative demand and timestamps out of order, and the answer that
  charges the battery with the 5 of negative demand.\<close>

definition bad_series :: "hour_record list" where
  "bad_series =
     [\<lparr>datetime = 13, demand = - 5, solar_available = 0, wind_available = 0,
        hydro_available = 0, price = 50\<rparr>,
      \<lparr>datetime = 12, demand = 0, solar_available = 0, wind_available = 0,
        hydro_available = 0, price = 50\<rparr>]"

definition bad_answer :: "var \<Rightarrow> real" where
  "bad_answer v =
     (if v = Battery_charge 0 then 5 else if v = Battery_level 0 then 250
      else if v = Battery_level 1 then 254.5 else if v = Battery_level 2 then 254.5 else 0)"

definition bad_solver :: "unit solver" where
  "bad_solver p s = ((LpStatusOptimal, bad_answer), s)"

text \<open>A solver that reports every problem infeasible and counts its invocations; the
  report is true of a battery charged beyond its capacity.\<close>

definition infeasible_solver :: "nat solver" where
  "infeasible_solver p n = ((LpStatusInfeasible, (\<lambda>v. 0)), Suc n)"

text \<open>Hourly rows without demand or supply.\<close>

definition flat_series :: "nat \<Rightarrow> hour_record list" where
  "flat_series n = map (\<lambda>t. \<lparr>datetime = int t, demand = 0, solar_available = 0,
       wind_available = 0, hydro_available = 0, price = 50\<rparr>) [0..<n]"


text \<open>A solver that fails on its first invocation and answers the noon optimum afterwards,
  counting its invocations.\<close>

definition flaky_solver :: "nat solver" where
  "flaky_solver p n =
     (if n = 0 then ((LpStatusNotSolved, (\<lambda>v. 0)), Suc n)
      else ((LpStatusOptimal, noon_answer), Suc n))"

section \<open>Properties\<close>

lemma base_emissions_unknown:
  "source \<noteq> ''solar'' \<Longrightarrow> source \<noteq> ''wind'' \<Longrightarrow> source \<noteq> ''hydro'' \<Longrightarrow>
   base_emissions source = None"
  by (simp add: base_emissions_def)

text \<open>
  Claim C10. For every hour value and every source string other than solar, wind and hydro,
  the carbon-intensity lookup returns 0: the missing key defaults to the base factor 0,
  which the band multiplier leaves at 0.
\<close>

theorem get_carbon_intensity_unknown_source:
  "source \<notin> {''solar'', ''wind'', ''hydro''} \<Longrightarrow> get_carbon_intensity h source = 0"
  by (simp add: get_carbon_intensity_def base_emissions_unknown)

theorem get_carbon_intensity_unknown_source_witness:
  "''coal'' \<notin> {''solar'', ''wind'', ''hydro''} \<and> get_carbon_intensity 18 ''coal'' = 0"
  using get_carbon_intensity_unknown_source [of "''coal''" 18] by simp

subsection \<open>The problems the optimisers build\<close>

lemma list_all_concat_enumerate:
  "list_all P (concat (map (\<lambda>(t, row). g t row) (enumerate n xs)))
     \<longleftrightarrow> (\<forall>i < length xs. list_all P (g (n + i) (xs ! i)))"
proof (induction xs arbitrary: n)
  case Nil
  then show ?case by simp
next
  case (Cons x xs)
  have "(\<forall>i < length (x # xs). list_all P (g (n + i) ((x # xs) ! i)))
        \<longleftrightarrow> list_all P (g n x) \<and> (\<forall>i < length xs. list_all P (g (Suc n + i) (xs ! i)))"
    by (auto simp: less_Suc_eq_0_disj)
  then show ?case using Cons.IH[of "Suc n"] by simp
qed

lemma list_all_map_upt: "list_all P (map f [0..<n]) \<longleftrightarrow> (\<forall>t < n. P (f t))"
  by (auto simp: list_all_iff)

text \<open>An assignment is feasible for the single-day problem exactly when it meets the
  constraints of the specification; the multi-day problem adds the terminal band.\<close>

lemma feasible_energy_mix:
  "feasible eps a (energy_mix_problem f cap init cw ew tv) \<longleftrightarrow> dispatch_constraints eps a f cap init"
  unfolding feasible_def energy_mix_problem_def Let_def dispatch_constraints_def
  apply (simp only: lp_problem.simps list_all_append list_all_map_upt list_all_concat_enumerate list.pred_inject add_0)
  apply (simp add: holds_def in_bounds_def eval_expr_def)
  apply (intro iffI)
   apply (auto)[1]
  apply auto
  done

lemma feasible_multiday:
  "feasible eps a (multiday_problem f cap init cw ew tv) \<longleftrightarrow>
     dispatch_constraints eps a f cap init \<and>
     cap * 0.2 \<le> a (Battery_level (length f)) + eps \<and>
     a (Battery_level (length f)) \<le> cap * 0.8 + eps"
  unfolding feasible_def multiday_problem_def Let_def dispatch_constraints_def
  apply (simp only: lp_problem.simps list_all_append list_all_map_upt list_all_concat_enumerate list.pred_inject add_0)
  apply (simp add: holds_def in_bounds_def eval_expr_def)
  apply (intro iffI)
   apply (auto)[1]
  apply auto
  done

lemma without_band_is_single_day:
  "without_terminal_band (multiday_problem f cap init cw ew tv) = energy_mix_problem f cap init cw ew tv"
  unfolding without_terminal_band_def multiday_problem_def energy_mix_problem_def Let_def
  by (simp add: butlast_append)

lemma enumerate_map_Nil: "enumerate n xs = [] \<longleftrightarrow> xs = []"
  by (cases xs) simp_all

lemma optimize_energy_mix_eq:
  "optimize_energy_mix solve f cap init cw ew tv s =
     (energy_mix_results (energy_mix_problem f cap init cw ew tv) f
        (fst (solve (energy_mix_problem f cap init cw ew tv) s)),
      snd (solve (energy_mix_problem f cap init cw ew tv) s))"
  by (simp add: optimize_energy_mix_def Let_def case_prod_beta)

lemma optimize_multiday_eq:
  "optimize_multiday_energy_mix solve f d cap init cw ew tv s =
     (multiday_results (multiday_problem f cap init cw ew tv) f d tv
        (fst (solve (multiday_problem f cap init cw ew tv) s)),
      snd (solve (multiday_problem f cap init cw ew tv) s))"
  by (simp add: optimize_multiday_energy_mix_def Let_def case_prod_beta)

lemma energy_mix_results_status:
  "case energy_mix_results prob f answer of
     Inr plan \<Rightarrow> status plan = LpStatus (fst answer)
   | Inl e \<Rightarrow> f = [] \<and> fst answer = LpStatusOptimal"
  by (simp add: energy_mix_results_def Let_def enumerate_map_Nil)

lemma multiday_results_status:
  "case multiday_results prob f d tv answer of
     Inr plan \<Rightarrow> status plan = LpStatus (fst answer)
   | Inl e \<Rightarrow> f = [] \<and> fst answer = LpStatusOptimal"
  by (simp add: multiday_results_def Let_def enumerate_map_Nil)

subsection \<open>The example answers are what a solver returns\<close>


lemma noon_optimal:
  assumes "feasible 0 a (energy_mix_problem noon_series 500 250 0.7 0.3 True)"
  shows "eval_expr noon_answer (objective (energy_mix_problem noon_series 500 250 0.7 0.3 True))
         \<le> eval_expr a (objective (energy_mix_problem noon_series 500 250 0.7 0.3 True))"
    and "eval_expr a (objective (energy_mix_problem noon_series 500 250 0.7 0.3 True))
         = eval_expr noon_answer (objective (energy_mix_problem noon_series 500 250 0.7 0.3 True))
         \<Longrightarrow> a (Solar_use 0) = 200"
proof -
  have c: "dispatch_constraints 0 a noon_series 500 250" using assms by (simp add: feasible_energy_mix)
  have obj: "eval_expr a (objective (energy_mix_problem noon_series 500 250 0.7 0.3 True))
     = 7621 * a (Solar_use 0) / 400 + 10707 * a (Wind_use 0) / 500 + 3166 * a (Hydro_use 0) / 125
       + 10000 * a (Unmet 0)" for a
    by (simp add: energy_mix_problem_def noon_series_def eval_expr_def scale_terms_def
        get_carbon_intensity_def base_emissions_def dt_hour_def)
  have f: "0 \<le> a (Solar_use 0)" "a (Wind_use 0) = 0" "a (Hydro_use 0) = 0" "0 \<le> a (Unmet 0)"
     "a (Solar_use 0) + a (Unmet 0) \<ge> 200"
    using c by (auto simp: dispatch_constraints_def noon_series_def)
  show "eval_expr noon_answer (objective (energy_mix_problem noon_series 500 250 0.7 0.3 True))
         \<le> eval_expr a (objective (energy_mix_problem noon_series 500 250 0.7 0.3 True))"
    using f by (simp add: obj noon_answer_def)
  show "a (Solar_use 0) = 200"
    if "eval_expr a (objective (energy_mix_problem noon_series 500 250 0.7 0.3 True))
         = eval_expr noon_answer (objective (energy_mix_problem noon_series 500 250 0.7 0.3 True))"
    using f that by (simp add: obj noon_answer_def)
qed

lemma bad_feasible:
  "feasible 0 bad_answer (energy_mix_problem bad_series 500 250 0.7 0.3 True)"
  "feasible 0 bad_answer (multiday_problem bad_series 500 250 0.7 0.3 True)"
  by (simp_all add: feasible_energy_mix feasible_multiday dispatch_constraints_def bad_series_def
      bad_answer_def less_Suc_eq)

text \<open>The answer to the malformed series is optimal too: no feasible plan costs less than 0.\<close>

lemma bad_objective:
  "eval_expr a (objective (energy_mix_problem bad_series 500 250 0.7 0.3 True))
     = 35 * a (Solar_use 0) / 2 + 21 * a (Wind_use 0) + 49 * a (Hydro_use 0) / 2
       + (0.1 * (0.3 * (45 * 1.15)) * a (Solar_use 0) + 0.1 * (0.3 * (12 * 1.15)) * a (Wind_use 0)
          + 0.1 * (0.3 * (24 * 1.15)) * a (Hydro_use 0))
       + (35 * a (Solar_use 1) / 2 + 21 * a (Wind_use 1) + 49 * a (Hydro_use 1) / 2)
       + (0.1 * (0.3 * (45 * 1.15)) * a (Solar_use 1) + 0.1 * (0.3 * (12 * 1.15)) * a (Wind_use 1)
          + 0.1 * (0.3 * (24 * 1.15)) * a (Hydro_use 1))
       + 10000 * a (Unmet 0) + 10000 * a (Unmet 1)"
  by (simp add: energy_mix_problem_def bad_series_def eval_expr_def scale_terms_def Let_def
      get_carbon_intensity_def base_emissions_def dt_hour_def)

lemma bad_optimal:
  assumes "feasible 0 a (energy_mix_problem bad_series 500 250 0.7 0.3 True)"
  shows "eval_expr bad_answer (objective (energy_mix_problem bad_series 500 250 0.7 0.3 True))
         \<le> eval_expr a (objective (energy_mix_problem bad_series 500 250 0.7 0.3 True))"
proof -
  have c: "dispatch_constraints 0 a bad_series 500 250"
    using assms by (simp add: feasible_energy_mix)
  have n: "0 \<le> a (Solar_use t) \<and> 0 \<le> a (Wind_use t) \<and> 0 \<le> a (Hydro_use t) \<and> 0 \<le> a (Unmet t)"
    if "t < 2" for t
  proof -
    have t: "t < length bad_series" using that by (simp add: bad_series_def)
    have "\<forall>t < length bad_series.
        0 \<le> a (Solar_use t) + 0 \<and> 0 \<le> a (Wind_use t) + 0 \<and> 0 \<le> a (Hydro_use t) + 0 \<and>
        0 \<le> a (Battery_charge t) + 0 \<and> 0 \<le> a (Battery_discharge t) + 0 \<and>
        0 \<le> a (Unmet t) + 0"
      using c unfolding dispatch_constraints_def by simp
    then show ?thesis using t by simp
  qed
  have "eval_expr bad_answer (objective (energy_mix_problem bad_series 500 250 0.7 0.3 True)) = 0"
    by (simp add: bad_objective bad_answer_def)
  moreover have "0 \<le> eval_expr a (objective (energy_mix_problem bad_series 500 250 0.7 0.3 True))"
    using n[of 0] n[of 1] by (simp add: bad_objective)
  ultimately show ?thesis by simp
qed

subsection \<open>Accounting mode of the reported emissions\<close>

text \<open>
  Claim C1. The reported \<open>total_emissions\<close> is computed in the accounting mode of the call.
  The multi-day entry point does so. The single-day entry point always sums with the fixed
  factors: at noon, in time-varying mode, the optimal plan takes 200 of solar and the call
  reports 200 * 45 = 9000, where the noon intensity 45 * 1.15 gives 10350.
\<close>

theorem single_day_total_emissions_ignores_mode:
  "fst (optimize_energy_mix noon_solver noon_series 500 250 0.7 0.3 True ()) =
     Inr \<lparr>status = ''Optimal'', error = None, objective_value = Some 3810.5,
          hours = [\<lparr>hour = 0, r_datetime = 12, r_demand = 300, solar_use = 200, wind_use = 0,
                    hydro_use = 0, battery_charge = 0, battery_discharge = 100,
                    battery_level = 150, unmet_demand = 0, r_price = 50\<rparr>],
          days = None, total_cost = Finite 5000, total_emissions = Finite 9000,
          total_unmet = Finite 0\<rparr> \<and>
   time_varying_emissions [\<lparr>hour = 0, r_datetime = 12, r_demand = 300, solar_use = 200, wind_use = 0,
                    hydro_use = 0, battery_charge = 0, battery_discharge = 100,
                    battery_level = 150, unmet_demand = 0, r_price = 50\<rparr>] = 10350"
  by (simp add: optimize_energy_mix_def energy_mix_results_def energy_mix_problem_def
      noon_solver_def noon_series_def noon_answer_def eval_expr_def scale_terms_def
      cost_columns_def fixed_emissions_def emission_factors_def time_varying_emissions_def
      get_carbon_intensity_def base_emissions_def dt_hour_def)

text \<open>The loop over the rows of the results adds up, hour by hour, each source's use times
  its intensity at the hour of the day.\<close>

lemma time_varying_emissions_sum:
  "time_varying_emissions hs =
     (\<Sum>h\<leftarrow>hs. solar_use h * get_carbon_intensity (dt_hour (r_datetime h)) ''solar'' +
             wind_use h * get_carbon_intensity (dt_hour (r_datetime h)) ''wind'' +
             hydro_use h * get_carbon_intensity (dt_hour (r_datetime h)) ''hydro'')"
proof -
  have "foldl (\<lambda>emissions row.
        (let hour_of_day = dt_hour (r_datetime row)
         in emissions +
            (solar_use row * get_carbon_intensity hour_of_day ''solar'' +
             wind_use row * get_carbon_intensity hour_of_day ''wind'' +
             hydro_use row * get_carbon_intensity hour_of_day ''hydro''))) e hs =
     e + (\<Sum>h\<leftarrow>hs. solar_use h * get_carbon_intensity (dt_hour (r_datetime h)) ''solar'' +
             wind_use h * get_carbon_intensity (dt_hour (r_datetime h)) ''wind'' +
             hydro_use h * get_carbon_intensity (dt_hour (r_datetime h)) ''hydro'')" for e
    by (induction hs arbitrary: e) (simp_all add: Let_def)
  then show ?thesis by (simp add: time_varying_emissions_def)
qed

text \<open>The multi-day entry point reports the emissions in the mode of the call.\<close>

lemma multiday_total_emissions_mode:
  assumes "optimize_multiday_energy_mix solve f d cap init cw ew tv s = (Inr plan, s')"
    and "error plan = None"
  shows "total_emissions plan =
           Finite (if tv then time_varying_emissions (hours plan) else fixed_emissions (hours plan))"
  using assms
  by (auto simp: optimize_multiday_eq multiday_results_def Let_def split: if_splits)

subsection \<open>Input validation\<close>

text \<open>
  Claim C2, as stated: a malformed series makes the call fail as InvalidInput before a model
  is built. It does not: for two rows with a negative demand, timestamps out of order and a
  length other than the horizon of 24, both entry points build the problem, take the
  solver's answer and return an optimal plan with both hours.
\<close>

theorem malformed_series_is_optimised:
  "\<not> well_formed 24 bad_series \<and>
   fst (optimize_energy_mix bad_solver bad_series 500 250 0.7 0.3 True ()) =
     Inr \<lparr>status = ''Optimal'', error = None, objective_value = Some 0,
          hours = [\<lparr>hour = 0, r_datetime = 13, r_demand = - 5, solar_use = 0, wind_use = 0,
                    hydro_use = 0, battery_charge = 5, battery_discharge = 0,
                    battery_level = 254.5, unmet_demand = 0, r_price = 50\<rparr>,
                   \<lparr>hour = 1, r_datetime = 12, r_demand = 0, solar_use = 0, wind_use = 0,
                    hydro_use = 0, battery_charge = 0, battery_discharge = 0,
                    battery_level = 254.5, unmet_demand = 0, r_price = 50\<rparr>],
          days = None, total_cost = Finite 0, total_emissions = Finite 0,
          total_unmet = Finite 0\<rparr> \<and>
   fst (optimize_multiday_energy_mix bad_solver bad_series 1 500 250 0.7 0.3 True ()) =
     Inr \<lparr>status = ''Optimal'', error = None, objective_value = Some 0,
          hours = [\<lparr>hour = 0, r_datetime = 13, r_demand = - 5, solar_use = 0, wind_use = 0,
                    hydro_use = 0, battery_charge = 5, battery_discharge = 0,
                    battery_level = 254.5, unmet_demand = 0, r_price = 50\<rparr>,
                   \<lparr>hour = 1, r_datetime = 12, r_demand = 0, solar_use = 0, wind_use = 0,
                    hydro_use = 0, battery_charge = 0, battery_discharge = 0,
                    battery_level = 254.5, unmet_demand = 0, r_price = 50\<rparr>],
          days = Some 1, total_cost = Finite 0, total_emissions = Finite 0,
          total_unmet = Finite 0\<rparr>"
  by (simp add: well_formed_def optimize_energy_mix_def energy_mix_results_def energy_mix_problem_def
      optimize_multiday_energy_mix_def multiday_results_def multiday_problem_def
      bad_solver_def bad_series_def bad_answer_def eval_expr_def scale_terms_def
      cost_columns_def fixed_emissions_def emission_factors_def time_varying_emissions_def
      get_carbon_intensity_def base_emissions_def dt_hour_def)

text \<open>
  Claim C2, amended. Neither entry point validates the series: for every series, malformed
  or not, the problem is built from the rows as given and the solver is invoked on it; the
  call returns a plan that carries the solver's status, and the solver has run once. The
  only exception is the KeyError of an empty series with an optimal answer.
\<close>

theorem no_input_validation:
  "(case fst (optimize_energy_mix solve f cap init cw ew tv s) of
      Inr plan \<Rightarrow> status plan = LpStatus (fst (fst (solve (energy_mix_problem f cap init cw ew tv) s)))
    | Inl e \<Rightarrow> f = [] \<and> fst (fst (solve (energy_mix_problem f cap init cw ew tv) s)) = LpStatusOptimal) \<and>
   snd (optimize_energy_mix solve f cap init cw ew tv s) = snd (solve (energy_mix_problem f cap init cw ew tv) s) \<and>
   (case fst (optimize_multiday_energy_mix solve f d cap init cw ew tv s) of
      Inr plan \<Rightarrow> status plan = LpStatus (fst (fst (solve (multiday_problem f cap init cw ew tv) s)))
    | Inl e \<Rightarrow> f = [] \<and> fst (fst (solve (multiday_problem f cap init cw ew tv) s)) = LpStatusOptimal) \<and>
   snd (optimize_multiday_energy_mix solve f d cap init cw ew tv s) = snd (solve (multiday_problem f cap init cw ew tv) s)"
  using energy_mix_results_status[where f = f and prob = "energy_mix_problem f cap init cw ew tv"
          and answer = "fst (solve (energy_mix_problem f cap init cw ew tv) s)"]
        multiday_results_status[where f = f and prob = "multiday_problem f cap init cw ew tv"
          and d = d and tv = tv and answer = "fst (solve (multiday_problem f cap init cw ew tv) s)"]
  by (simp add: optimize_energy_mix_eq optimize_multiday_eq)

subsection \<open>Terminal battery band\<close>

lemma idle_feasible:
  assumes "list_all nonneg_row f" "0 \<le> init" "init \<le> cap"
  shows "feasible 0 (idle_assignment f init) (energy_mix_problem f cap init cw ew tv)"
proof -
  have "nonneg_row (f ! t)" if "t < length f" for t
    using assms(1) that by (simp add: list_all_length)
  then show ?thesis
    using assms(2,3)
    by (simp add: feasible_energy_mix dispatch_constraints_def idle_assignment_def
        nonneg_row_def nonneg_supply_def)
qed

lemma flat_series_nonneg: "list_all nonneg_row (flat_series n)"
  by (simp add: flat_series_def list_all_iff nonneg_row_def nonneg_supply_def)

text \<open>
  Claim C3, as stated: the band is imposed exactly when the horizon exceeds 24 hours. It is
  not the horizon that decides: the multi-day entry point rejects, for a horizon of 24
  hours, the idle plan that the single-day entry point accepts, since its final level 450
  is above 0.8 * 500; and the single-day entry point accepts for a horizon of 48 hours a
  plan that ends above the band.
\<close>

theorem terminal_band_not_by_horizon:
  "length (flat_series 24) = 24 \<and>
   feasible 0 (idle_assignment (flat_series 24) 450) (energy_mix_problem (flat_series 24) 500 450 0.7 0.3 True) \<and>
   \<not> feasible 0 (idle_assignment (flat_series 24) 450) (multiday_problem (flat_series 24) 500 450 0.7 0.3 True) \<and>
   length (flat_series 48) = 48 \<and>
   feasible 0 (idle_assignment (flat_series 48) 450) (energy_mix_problem (flat_series 48) 500 450 0.7 0.3 True) \<and>
   \<not> idle_assignment (flat_series 48) 450 (Battery_level 48) \<le> 0.8 * 500"
proof -
  have 1: "feasible 0 (idle_assignment (flat_series n) 450) (energy_mix_problem (flat_series n) 500 450 0.7 0.3 True)" for n
    by (rule idle_feasible[OF flat_series_nonneg]) simp_all
  have 2: "\<not> feasible 0 (idle_assignment (flat_series 24) 450) (multiday_problem (flat_series 24) 500 450 0.7 0.3 True)"
    by (simp add: feasible_multiday idle_assignment_def)
  show ?thesis using 1 2 by (simp add: flat_series_def idle_assignment_def)
qed

text \<open>
  Claim C3, amended. The terminal band is imposed by the multi-day entry point and by it
  alone, whatever the horizon: a plan is feasible for the multi-day problem exactly when
  it is feasible for the single-day problem of the same series and its final battery level
  lies between 0.2 and 0.8 of the capacity. The single-day problem has no terminal
  constraint: for every series without negative demand or supply and every initial charge
  between empty and full, the idle plan is feasible and ends at the initial charge.
\<close>

theorem terminal_band_by_entry_point:
  "(feasible eps a (multiday_problem f cap init cw ew tv) \<longleftrightarrow>
      feasible eps a (energy_mix_problem f cap init cw ew tv) \<and>
      cap * 0.2 \<le> a (Battery_level (length f)) + eps \<and>
      a (Battery_level (length f)) \<le> cap * 0.8 + eps) \<and>
   (list_all nonneg_row f \<and> 0 \<le> init \<and> init \<le> cap \<longrightarrow>
      feasible 0 (idle_assignment f init) (energy_mix_problem f cap init cw ew tv) \<and>
      idle_assignment f init (Battery_level (length f)) = init)"
  using idle_feasible[of f init cap cw ew tv]
  by (simp add: feasible_multiday feasible_energy_mix idle_assignment_def)

theorem terminal_band_by_entry_point_witness:
  "list_all nonneg_row noon_series \<and> (0::real) \<le> 450 \<and> (450::real) \<le> 500 \<and>
   feasible 0 (idle_assignment noon_series 450) (energy_mix_problem noon_series 500 450 0.7 0.3 True) \<and>
   idle_assignment noon_series 450 (Battery_level 1) = 450 \<and>
   \<not> feasible 0 (idle_assignment noon_series 450) (multiday_problem noon_series 500 450 0.7 0.3 True)"
  using terminal_band_by_entry_point [where f = noon_series and init = 450 and cap = 500
      and cw = "0.7" and ew = "0.3" and tv = True and eps = 0
      and a = "idle_assignment noon_series 450"]
  by (simp add: noon_series_def nonneg_row_def nonneg_supply_def idle_assignment_def)

subsection \<open>One algorithm for both horizons\<close>

text \<open>
  Claim C4. The single-day optimiser and the multi-day optimiser without its terminal band
  build the same problem and return equal plans. The problems are equal
  (\<open>without_band_is_single_day\<close>), and so are the hourly entries and the cost; the
  reported emissions are not, in time-varying mode: 9000 from the single-day entry point
  against 10350 from the multi-day one, on the same answer of the solver.
\<close>

theorem single_day_differs_from_multiday_without_band:
  "fst (optimize_energy_mix noon_solver noon_series 500 250 0.7 0.3 True ()) =
     Inr \<lparr>status = ''Optimal'', error = None, objective_value = Some 3810.5,
          hours = [\<lparr>hour = 0, r_datetime = 12, r_demand = 300, solar_use = 200, wind_use = 0,
                    hydro_use = 0, battery_charge = 0, battery_discharge = 100,
                    battery_level = 150, unmet_demand = 0, r_price = 50\<rparr>],
          days = None, total_cost = Finite 5000, total_emissions = Finite 9000,
          total_unmet = Finite 0\<rparr> \<and>
   fst (optimize_multiday_without_band noon_solver noon_series 1 500 250 0.7 0.3 True ()) =
     Inr \<lparr>status = ''Optimal'', error = None, objective_value = Some 3810.5,
          hours = [\<lparr>hour = 0, r_datetime = 12, r_demand = 300, solar_use = 200, wind_use = 0,
                    hydro_use = 0, battery_charge = 0, battery_discharge = 100,
                    battery_level = 150, unmet_demand = 0, r_price = 50\<rparr>],
          days = Some 1, total_cost = Finite 5000, total_emissions = Finite 10350,
          total_unmet = Finite 0\<rparr>"
  by (simp add: optimize_energy_mix_def energy_mix_results_def energy_mix_problem_def
      optimize_multiday_without_band_def without_terminal_band_def multiday_results_def
      multiday_problem_def
      noon_solver_def noon_series_def noon_answer_def eval_expr_def scale_terms_def
      cost_columns_def fixed_emissions_def emission_factors_def time_varying_emissions_def
      get_carbon_intensity_def base_emissions_def dt_hour_def)

text \<open>In fixed mode the two return the same hours and the same totals, whatever the solver
  answers.\<close>

lemma single_day_agrees_with_multiday_without_band_fixed_mode:
  "map_sum id (\<lambda>r. (status r, hours r, total_cost r, total_emissions r, total_unmet r))
     (fst (optimize_energy_mix solve f cap init cw ew False s)) =
   map_sum id (\<lambda>r. (status r, hours r, total_cost r, total_emissions r, total_unmet r))
     (fst (optimize_multiday_without_band solve f d cap init cw ew False s))"
  by (simp add: optimize_energy_mix_eq optimize_multiday_without_band_def
      without_band_is_single_day Let_def case_prod_beta energy_mix_results_def
      multiday_results_def)

subsection \<open>Failure of the solver\<close>

text \<open>A battery charged beyond its capacity makes both problems infeasible: the start of
  the level contradicts its upper bound.\<close>

lemma overfull_battery_infeasible:
  assumes "cap < init"
  shows "\<not> feasible 0 a (energy_mix_problem f cap init cw ew tv)"
    and "\<not> feasible 0 a (multiday_problem f cap init cw ew tv)"
proof -
  have "\<not> dispatch_constraints 0 a f cap init"
  proof
    assume c: "dispatch_constraints 0 a f cap init"
    have b: "\<forall>t < length f + 1. 0 \<le> a (Battery_level t) + 0 \<and> a (Battery_level t) \<le> cap + 0"
      and i: "\<bar>a (Battery_level 0) - init\<bar> \<le> 0"
      using c unfolding dispatch_constraints_def by simp_all
    have "a (Battery_level 0) \<le> cap" using b by simp
    then show False using i assms by simp
  qed
  then show "\<not> feasible 0 a (energy_mix_problem f cap init cw ew tv)"
    and "\<not> feasible 0 a (multiday_problem f cap init cw ew tv)"
    by (simp_all add: feasible_energy_mix feasible_multiday)
qed

text \<open>
  Claim C8. When the solver reports a status other than optimal, either entry point returns
  a plan with that status, a message naming it and no hourly entries; the solver's state is
  the one after this single invocation.
\<close>

theorem non_optimal_status_reported:
  assumes "st \<noteq> LpStatusOptimal"
  shows "(solve (energy_mix_problem f cap init cw ew tv) s = ((st, val), s') \<longrightarrow>
            optimize_energy_mix solve f cap init cw ew tv s =
              (Inr \<lparr>status = LpStatus st,
                    error = Some (''Optimization failed with status: '' @ LpStatus st),
                    objective_value = None, hours = [], days = None,
                    total_cost = Infinity, total_emissions = Infinity, total_unmet = Infinity\<rparr>, s')) \<and>
         (solve (multiday_problem f cap init cw ew tv) s = ((st, val), s') \<longrightarrow>
            optimize_multiday_energy_mix solve f d cap init cw ew tv s =
              (Inr \<lparr>status = LpStatus st,
                    error = Some (''Multi-day optimization failed: '' @ LpStatus st),
                    objective_value = None, hours = [], days = None,
                    total_cost = Infinity, total_emissions = Infinity, total_unmet = Infinity\<rparr>, s'))"
  using assms
  by (simp add: optimize_energy_mix_def optimize_multiday_energy_mix_def energy_mix_results_def
      multiday_results_def)

theorem non_optimal_status_reported_witness:
  "LpStatusInfeasible \<noteq> LpStatusOptimal \<and>
   infeasible_solver (energy_mix_problem noon_series 500 600 0.7 0.3 True) 0 =
     ((LpStatusInfeasible, (\<lambda>v. 0)), 1) \<and>
   optimize_energy_mix infeasible_solver noon_series 500 600 0.7 0.3 True 0 =
     (Inr \<lparr>status = ''Infeasible'',
           error = Some ''Optimization failed with status: Infeasible'',
           objective_value = None, hours = [], days = None,
           total_cost = Infinity, total_emissions = Infinity, total_unmet = Infinity\<rparr>, 1) \<and>
   infeasible_solver (multiday_problem noon_series 500 600 0.7 0.3 True) 0 =
     ((LpStatusInfeasible, (\<lambda>v. 0)), 1) \<and>
   optimize_multiday_energy_mix infeasible_solver noon_series 3 500 600 0.7 0.3 True 0 =
     (Inr \<lparr>status = ''Infeasible'',
           error = Some ''Multi-day optimization failed: Infeasible'',
           objective_value = None, hours = [], days = None,
           total_cost = Infinity, total_emissions = Infinity, total_unmet = Infinity\<rparr>, 1)"
  using non_optimal_status_reported [of LpStatusInfeasible infeasible_solver noon_series 500 600
      "0.7" "0.3" True 0 "\<lambda>v. 0" 1 3]
  by (simp add: infeasible_solver_def)

subsection \<open>The greedy dispatcher, hour by hour\<close>




lemma greedy_loop_length: "length (greedy_loop cap lvl t rows) = length rows"
  by (induction rows arbitrary: lvl t) (auto split: prod.splits)




lemma greedy_energy_mix_Inr:
  assumes "f \<noteq> []"
  shows "greedy_energy_mix f cap init =
     Inr \<lparr>status = ''Greedy'', error = None, objective_value = None,
          hours = greedy_loop cap init 0 f, days = None,
          total_cost = Finite (cost_columns (greedy_loop cap init 0 f)),
          total_emissions = Finite (fixed_emissions (greedy_loop cap init 0 f)),
          total_unmet = Finite (sum_list (map unmet_demand (greedy_loop cap init 0 f)))\<rparr>"
proof -
  have "length (greedy_loop cap init 0 f) \<noteq> 0" using assms by (simp add: greedy_loop_length)
  then have "greedy_loop cap init 0 f \<noteq> []" by simp
  then show ?thesis by (simp add: greedy_energy_mix_def Let_def)
qed


lemma cost_columns_realized: "cost_columns hs = realized_cost hs"
  unfolding cost_columns_def realized_cost_def
  by (induction hs) (simp_all add: algebra_simps)

lemma fixed_emissions_base: "fixed_emissions hs = base_factor_emissions hs"
  unfolding fixed_emissions_def base_factor_emissions_def
  by (induction hs) (simp_all add: emission_factors_def algebra_simps)



subsection \<open>Demand balance\<close>








subsection \<open>The sensitivity sweep\<close>

lemma scenario_df_Nil: "scenario_df f m = [] \<longleftrightarrow> f = []"
  by (simp add: scenario_df_def)

lemma optimize_energy_mix_nonempty:
  assumes "f \<noteq> []"
  shows "\<exists>plan. optimize_energy_mix solve f cap init cw ew tv s =
                  (Inr plan, snd (solve (energy_mix_problem f cap init cw ew tv) s)) \<and>
           (error plan = None \<longleftrightarrow>
              fst (fst (solve (energy_mix_problem f cap init cw ew tv) s)) = LpStatusOptimal)"
  using assms
  by (simp add: optimize_energy_mix_eq energy_mix_results_def Let_def enumerate_map_Nil)

lemma sensitivity_loop_greedy:
  assumes "sensitivity_loop solve f cap init cw ew tv ms res s = (Inr res', s')"
  shows "\<exists>gs. greedy res' = greedy res @ gs \<and>
           list_all2 (\<lambda>m e. \<exists>g. greedy_energy_mix (scenario_df f m) cap init = Inr g \<and>
                                 e = summary_of m g) ms gs"
    and "map multiplier (scenarios res') = map multiplier (scenarios res) @ ms"
  using assms
proof (induction ms arbitrary: res s)
  case Nil
  { case 1 then show ?case by simp }
  { case 2 then show ?case by simp }
next
  case (Cons m ms)
  { case 1
  obtain r s1 where o: "optimize_energy_mix solve (scenario_df f m) cap init cw ew tv s = (r, s1)"
    by (cases "optimize_energy_mix solve (scenario_df f m) cap init cw ew tv s")
  from 1 o obtain opt_result where r: "r = Inr opt_result"
    by (cases r) simp_all
  from 1 o r obtain g where g: "greedy_energy_mix (scenario_df f m) cap init = Inr g"
    by (cases "greedy_energy_mix (scenario_df f m) cap init") simp_all
  define res1 where "res1 = \<lparr>scenarios = scenarios res @
                    [\<lparr>multiplier = m, label = str_int (py_int (m * 100)) @ ''% Price''\<rparr>],
                  optimized = (if error opt_result = None
                               then optimized res @ [summary_of m opt_result]
                               else optimized res),
                  greedy = greedy res @ [summary_of m g]\<rparr>"
  have "sensitivity_loop solve f cap init cw ew tv ms res1 s1 = (Inr res', s')"
    using 1 o r g by (simp add: res1_def)
  from Cons.IH(1)[OF this] obtain gs where
    "greedy res' = greedy res1 @ gs"
    "list_all2 (\<lambda>m e. \<exists>g. greedy_energy_mix (scenario_df f m) cap init = Inr g \<and>
                                 e = summary_of m g) ms gs"
    by blast
  then have "greedy res' = greedy res @ (summary_of m g # gs) \<and>
    list_all2 (\<lambda>m e. \<exists>g. greedy_energy_mix (scenario_df f m) cap init = Inr g \<and>
                                 e = summary_of m g) (m # ms) (summary_of m g # gs)"
    using g by (simp add: res1_def)
  then show ?case by blast }
  { case 2
  obtain r s1 where o: "optimize_energy_mix solve (scenario_df f m) cap init cw ew tv s = (r, s1)"
    by (cases "optimize_energy_mix solve (scenario_df f m) cap init cw ew tv s")
  from 2 o obtain opt_result where r: "r = Inr opt_result"
    by (cases r) simp_all
  from 2 o r obtain g where g: "greedy_energy_mix (scenario_df f m) cap init = Inr g"
    by (cases "greedy_energy_mix (scenario_df f m) cap init") simp_all
  define res1 where "res1 = \<lparr>scenarios = scenarios res @
                    [\<lparr>multiplier = m, label = str_int (py_int (m * 100)) @ ''% Price''\<rparr>],
                  optimized = (if error opt_result = None
                               then optimized res @ [summary_of m opt_result]
                               else optimized res),
                  greedy = greedy res @ [summary_of m g]\<rparr>"
  have "sensitivity_loop solve f cap init cw ew tv ms res1 s1 = (Inr res', s')"
    using 2 o r g by (simp add: res1_def)
  from Cons.IH(2)[OF this] show ?case by (simp add: res1_def) }
qed

lemma sensitivity_loop_total:
  assumes "f \<noteq> []"
  shows "\<exists>res'. sensitivity_loop solve f cap init cw ew tv ms res s =
            (Inr res', snd (solver_run solve
                (map (\<lambda>m. energy_mix_problem (scenario_df f m) cap init cw ew tv) ms) s)) \<and>
           map s_multiplier (optimized res') =
             map s_multiplier (optimized res) @
             map fst (filter (\<lambda>(m, st). st = LpStatusOptimal)
               (zip ms (fst (solver_run solve
                  (map (\<lambda>m. energy_mix_problem (scenario_df f m) cap init cw ew tv) ms) s))))"
proof (induction ms arbitrary: res s)
  case Nil
  then show ?case by simp
next
  case (Cons m ms)
  let ?P = "\<lambda>m. energy_mix_problem (scenario_df f m) cap init cw ew tv"
  have ne: "scenario_df f m \<noteq> []" using assms by (simp add: scenario_df_Nil)
  obtain answer s1 where sv: "solve (?P m) s = (answer, s1)" by (cases "solve (?P m) s")
  from optimize_energy_mix_nonempty[OF ne, of solve cap init cw ew tv s] sv
  obtain opt_result where
    o: "optimize_energy_mix solve (scenario_df f m) cap init cw ew tv s = (Inr opt_result, s1)"
    and e: "error opt_result = None \<longleftrightarrow> fst answer = LpStatusOptimal"
    by auto
  obtain g where g: "greedy_energy_mix (scenario_df f m) cap init = Inr g"
    using greedy_energy_mix_Inr[OF ne] by blast
  define res1 where "res1 = \<lparr>scenarios = scenarios res @
                    [\<lparr>multiplier = m, label = str_int (py_int (m * 100)) @ ''% Price''\<rparr>],
                  optimized = (if error opt_result = None
                               then optimized res @ [summary_of m opt_result]
                               else optimized res),
                  greedy = greedy res @ [summary_of m g]\<rparr>"
  have step: "sensitivity_loop solve f cap init cw ew tv (m # ms) res s =
              sensitivity_loop solve f cap init cw ew tv ms res1 s1"
    using o g by (simp add: res1_def)
  obtain sts s2 where run: "solver_run solve (map ?P ms) s1 = (sts, s2)"
    by (cases "solver_run solve (map ?P ms) s1")
  have run': "solver_run solve (map ?P (m # ms)) s = (fst answer # sts, s2)"
    using sv run by simp
  from Cons.IH[of res1 s1] run obtain res' where
    r: "sensitivity_loop solve f cap init cw ew tv ms res1 s1 = (Inr res', s2)"
    and op: "map s_multiplier (optimized res') = map s_multiplier (optimized res1) @
             map fst (filter (\<lambda>(m, st). st = LpStatusOptimal) (zip ms sts))"
    by auto
  have "map s_multiplier (optimized res1) =
        map s_multiplier (optimized res) @ (if fst answer = LpStatusOptimal then [m] else [])"
    using e by (simp add: res1_def summary_of_def)
  then have "map s_multiplier (optimized res') =
             map s_multiplier (optimized res) @
             map fst (filter (\<lambda>(m, st). st = LpStatusOptimal) (zip (m # ms) (fst answer # sts)))"
    using op by simp
  then show ?case using step r run' by simp
qed

lemma list_all2_summaries:
  "list_all2 (\<lambda>m e. \<exists>g. G m = Inr g \<and> e = summary_of m g) ms gs \<Longrightarrow> map s_multiplier gs = ms"
proof (induction ms gs rule: list_all2_induct)
  case Nil
  then show ?case by simp
next
  case (Cons m ms e gs)
  then obtain g where "e = summary_of m g" by blast
  then have "s_multiplier e = m" by (simp add: summary_of_def)
  then show ?case using Cons.IH by simp
qed

lemma list_all2_summaries_unique:
  "list_all2 (\<lambda>m e. \<exists>g. G m = Inr g \<and> e = summary_of m g) ms gs \<Longrightarrow>
   list_all2 (\<lambda>m e. \<exists>g. G m = Inr g \<and> e = summary_of m g) ms gs' \<Longrightarrow> gs = gs'"
proof (induction ms gs arbitrary: gs' rule: list_all2_induct)
  case Nil
  then show ?case by simp
next
  case (Cons m ms e gs)
  from Cons.prems obtain e' gs'' where g': "gs' = e' # gs''"
    and e': "\<exists>g. G m = Inr g \<and> e' = summary_of m g"
    and r: "list_all2 (\<lambda>m e. \<exists>g. G m = Inr g \<and> e = summary_of m g) ms gs''"
    by (cases gs') auto
  from Cons.hyps(1) e' have "e = e'" by auto
  then show ?case using Cons.IH[OF r] g' by simp
qed

lemma sweep_greedy_entries:
  assumes "f \<noteq> []"
  shows "\<exists>res. fst (run_price_sensitivity solve f cap init cw ew (Some ms) tv s) = Inr res \<and>
           list_all2 (\<lambda>m e. \<exists>g. greedy_energy_mix (scenario_df f m) cap init = Inr g \<and>
                                 e = summary_of m g) ms (greedy res)"
proof -
  let ?res0 = "\<lparr>scenarios = [], optimized = [], greedy = []\<rparr>"
  from sensitivity_loop_total[OF assms, of solve cap init cw ew tv ms ?res0 s]
  obtain res s' where
    r: "sensitivity_loop solve f cap init cw ew tv ms ?res0 s = (Inr res, s')"
    by blast
  from sensitivity_loop_greedy(1)[OF r]
  have "list_all2 (\<lambda>m e. \<exists>g. greedy_energy_mix (scenario_df f m) cap init = Inr g \<and>
                                 e = summary_of m g) ms (greedy res)"
    by simp
  then show ?thesis using r by (simp add: run_price_sensitivity_def)
qed

lemma noon_single_day_plan:
  "optimize_energy_mix noon_solver noon_series 500 250 0.7 0.3 True () =
     (Inr \<lparr>status = ''Optimal'', error = None, objective_value = Some 3810.5,
          hours = [\<lparr>hour = 0, r_datetime = 12, r_demand = 300, solar_use = 200, wind_use = 0,
                    hydro_use = 0, battery_charge = 0, battery_discharge = 100,
                    battery_level = 150, unmet_demand = 0, r_price = 50\<rparr>],
          days = None, total_cost = Finite 5000, total_emissions = Finite 9000,
          total_unmet = Finite 0\<rparr>, ())"
  by (simp add: optimize_energy_mix_def energy_mix_results_def energy_mix_problem_def
      noon_solver_def noon_series_def noon_answer_def eval_expr_def scale_terms_def
      cost_columns_def fixed_emissions_def emission_factors_def
      get_carbon_intensity_def base_emissions_def dt_hour_def)

lemma noon_greedy_plan:
  "greedy_energy_mix noon_series 500 250 =
     Inr \<lparr>status = ''Greedy'', error = None, objective_value = None,
          hours = [\<lparr>hour = 0, r_datetime = 12, r_demand = 300, solar_use = 300, wind_use = 0,
                    hydro_use = 0, battery_charge = 0, battery_discharge = 0,
                    battery_level = 250, unmet_demand = 0, r_price = 50\<rparr>],
          days = None, total_cost = Finite 7500, total_emissions = Finite 13500,
          total_unmet = Finite 0\<rparr>"
  by (simp add: greedy_energy_mix_def greedy_hour_def noon_series_def Let_def
      cost_columns_def fixed_emissions_def emission_factors_def)

text \<open>Without a list of multipliers the sweep runs over the five default ones.\<close>

lemma run_price_sensitivity_default:
  "run_price_sensitivity solve f cap init cw ew None tv s =
   run_price_sensitivity solve f cap init cw ew (Some [0.5, 0.75, 1.0, 1.25, 1.5]) tv s"
  by (simp add: run_price_sensitivity_def)

text \<open>
  Claim C7. The greedy dispatcher computes its total cost with the cost factors of the
  optimiser, 0.5, 0.6 and 0.7 of the price, and its total emissions with the fixed factors
  45, 12 and 24. It has no parameter for the accounting mode: the greedy entries of a sweep
  run in time-varying mode and of the same sweep run in fixed mode are the same.
\<close>

theorem greedy_aggregates_fixed_factors:
  assumes "f \<noteq> []"
  shows "(\<exists>g. greedy_energy_mix f cap init = Inr g \<and>
            total_cost g = Finite (realized_cost (hours g)) \<and>
            total_emissions g = Finite (base_factor_emissions (hours g))) \<and>
         (\<forall>plan. fst (optimize_energy_mix solve f cap init cw ew tv s) = Inr plan \<and>
                 error plan = None \<longrightarrow>
            total_cost plan = Finite (realized_cost (hours plan))) \<and>
         (\<exists>res res'.
            fst (run_price_sensitivity solve f cap init cw ew (Some ms) True s) = Inr res \<and>
            fst (run_price_sensitivity solve f cap init cw ew (Some ms) False s) = Inr res' \<and>
            greedy res = greedy res')"
proof (intro conjI)
  show "\<exists>g. greedy_energy_mix f cap init = Inr g \<and>
            total_cost g = Finite (realized_cost (hours g)) \<and>
            total_emissions g = Finite (base_factor_emissions (hours g))"
    by (simp add: greedy_energy_mix_Inr[OF assms] cost_columns_realized fixed_emissions_base)
  show "\<forall>plan. fst (optimize_energy_mix solve f cap init cw ew tv s) = Inr plan \<and>
                 error plan = None \<longrightarrow>
            total_cost plan = Finite (realized_cost (hours plan))"
    by (auto simp: optimize_energy_mix_eq energy_mix_results_def Let_def cost_columns_realized
        split: if_splits)
  from sweep_greedy_entries[OF assms, of solve cap init cw ew ms True s] obtain res where
    r: "fst (run_price_sensitivity solve f cap init cw ew (Some ms) True s) = Inr res"
      "list_all2 (\<lambda>m e. \<exists>g. greedy_energy_mix (scenario_df f m) cap init = Inr g \<and>
                                 e = summary_of m g) ms (greedy res)"
    by auto
  from sweep_greedy_entries[OF assms, of solve cap init cw ew ms False s] obtain res' where
    r': "fst (run_price_sensitivity solve f cap init cw ew (Some ms) False s) = Inr res'"
      "list_all2 (\<lambda>m e. \<exists>g. greedy_energy_mix (scenario_df f m) cap init = Inr g \<and>
                                 e = summary_of m g) ms (greedy res')"
    by auto
  have "greedy res = greedy res'" by (rule list_all2_summaries_unique[OF r(2) r'(2)])
  then show "\<exists>res res'.
            fst (run_price_sensitivity solve f cap init cw ew (Some ms) True s) = Inr res \<and>
            fst (run_price_sensitivity solve f cap init cw ew (Some ms) False s) = Inr res' \<and>
            greedy res = greedy res'"
    using r(1) r'(1) by blast
qed

theorem greedy_aggregates_fixed_factors_witness:
  "noon_series \<noteq> [] \<and>
   (\<exists>g. greedy_energy_mix noon_series 500 250 = Inr g \<and>
      total_cost g = Finite (realized_cost (hours g)) \<and> realized_cost (hours g) = 7500 \<and>
      total_emissions g = Finite (base_factor_emissions (hours g)) \<and>
      base_factor_emissions (hours g) = 13500) \<and>
   (\<exists>plan. fst (optimize_energy_mix noon_solver noon_series 500 250 0.7 0.3 True ()) = Inr plan \<and>
      error plan = None \<and> total_cost plan = Finite (realized_cost (hours plan)) \<and>
      realized_cost (hours plan) = 5000) \<and>
   (\<exists>res res'.
      fst (run_price_sensitivity noon_solver noon_series 500 250 0.7 0.3 (Some [0.5, 1]) True ()) = Inr res \<and>
      fst (run_price_sensitivity noon_solver noon_series 500 250 0.7 0.3 (Some [0.5, 1]) False ()) = Inr res' \<and>
      greedy res = greedy res')"
proof -
  have ne: "noon_series \<noteq> []" by (simp add: noon_series_def)
  note t = greedy_aggregates_fixed_factors [OF ne, of 500 250 noon_solver "0.7" "0.3" True "()" "[0.5, 1]"]
  show ?thesis
    using ne t noon_greedy_plan noon_single_day_plan by auto
qed

text \<open>
  Claim C9. A sweep over a non-empty series returns for every list of multipliers: the
  solver has been invoked once per multiplier, in order, whatever it reported; there is
  one scenario and one greedy entry per multiplier, the greedy entry being the summary of
  the greedy plan of the scaled series; and the optimised entries are those of the
  multipliers for which the solver reported an optimum, the others being left out.
\<close>

theorem sweep_failure_is_local:
  assumes "f \<noteq> []"
  shows "\<exists>res. run_price_sensitivity solve f cap init cw ew (Some ms) tv s =
            (Inr res, snd (solver_run solve
                (map (\<lambda>m. energy_mix_problem (scenario_df f m) cap init cw ew tv) ms) s)) \<and>
           map multiplier (scenarios res) = ms \<and>
           list_all2 (\<lambda>m e. \<exists>g. greedy_energy_mix (scenario_df f m) cap init = Inr g \<and>
                                 e = summary_of m g) ms (greedy res) \<and>
           map s_multiplier (optimized res) =
             map fst (filter (\<lambda>(m, st). st = LpStatusOptimal)
               (zip ms (fst (solver_run solve
                  (map (\<lambda>m. energy_mix_problem (scenario_df f m) cap init cw ew tv) ms) s))))"
proof -
  let ?res0 = "\<lparr>scenarios = [], optimized = [], greedy = []\<rparr>"
  from sensitivity_loop_total[OF assms, of solve cap init cw ew tv ms ?res0 s]
  obtain res where
    r: "sensitivity_loop solve f cap init cw ew tv ms ?res0 s =
            (Inr res, snd (solver_run solve
                (map (\<lambda>m. energy_mix_problem (scenario_df f m) cap init cw ew tv) ms) s))"
    and op: "map s_multiplier (optimized res) =
             map fst (filter (\<lambda>(m, st). st = LpStatusOptimal)
               (zip ms (fst (solver_run solve
                  (map (\<lambda>m. energy_mix_problem (scenario_df f m) cap init cw ew tv) ms) s))))"
    by auto
  from sensitivity_loop_greedy[OF r]
  have "list_all2 (\<lambda>m e. \<exists>g. greedy_energy_mix (scenario_df f m) cap init = Inr g \<and>
                                 e = summary_of m g) ms (greedy res)"
    and "map multiplier (scenarios res) = ms"
    by simp_all
  then show ?thesis using r op by (simp add: run_price_sensitivity_def)
qed

theorem sweep_failure_is_local_witness:
  "noon_series \<noteq> [] \<and>
   (\<exists>res. run_price_sensitivity flaky_solver noon_series 500 250 0.7 0.3 (Some [0.5, 1]) True 0 =
            (Inr res, 2) \<and>
          map multiplier (scenarios res) = [0.5, 1] \<and>
          map s_multiplier (greedy res) = [0.5, 1] \<and>
          map s_multiplier (optimized res) = [1])"
proof -
  have ne: "noon_series \<noteq> []" by (simp add: noon_series_def)
  have run: "solver_run flaky_solver
     (map (\<lambda>m. energy_mix_problem (scenario_df noon_series m) 500 250 0.7 0.3 True) [0.5, 1]) 0
     = ([LpStatusNotSolved, LpStatusOptimal], 2)"
    by (simp add: flaky_solver_def)
  from sweep_failure_is_local [OF ne, of flaky_solver 500 250 "0.7" "0.3" "[0.5, 1]" True 0]
  obtain res where
    r: "run_price_sensitivity flaky_solver noon_series 500 250 0.7 0.3 (Some [0.5, 1]) True 0 =
            (Inr res, 2)"
    "map multiplier (scenarios res) = [0.5, 1]"
    "list_all2 (\<lambda>m e. \<exists>g. greedy_energy_mix (scenario_df noon_series m) 500 250 = Inr g \<and>
                                 e = summary_of m g) [0.5, 1] (greedy res)"
    "map s_multiplier (optimized res) = [1]"
    unfolding run by auto
  from list_all2_summaries[OF r(3)] have "map s_multiplier (greedy res) = [0.5, 1]" .
  then show ?thesis using ne r(1,2,4) by (intro conjI exI[of _ res]) simp_all
qed

end
